theory Spec2Isabelle
  imports Complex_Main
begin

section \<open>Python values\<close>

text \<open>
  The scoring engine receives decoded JSON payloads: dynamically typed values.  A
  value is one of the shapes below.  A string is a list of 8-bit characters, read as the
  code points U+0000 to U+00FF; a dictionary is an association list in insertion order
  with string keys.  A finite float is modelled by the rational number it denotes.
  Negative zero denotes 0 as zero does, and is a value of its own: \<open>Fin 0\<close> is the
  positive zero, \<open>NegZero\<close> the negative one.  The two compare equal and are both
  falsy; their texts differ.
\<close>

datatype pyfloat = Fin rat | NegZero | PosInf | NegInf | NaN

datatype pyval =
    PNone
  | PBool bool
  | PInt int
  | PFloat pyfloat
  | PStr string
  | PList "pyval list"
  | PDict "(string \<times> pyval) list"

text \<open>The exceptions that the builtin operations used by the engine can raise.\<close>

datatype exc = TypeError | ValueError | AttributeError | OverflowError | RecursionError

text \<open>
  Two builtins depend on the binary float format and are parameters of the model:
  \<open>float(s)\<close> on a string (\<open>None\<close> stands for \<open>ValueError\<close>) and the text
  of a float, as \<open>str\<close> and an f-string print it.
\<close>

record builtins =
  float_of_str :: "string \<Rightarrow> pyfloat option"
  float_repr :: "pyfloat \<Rightarrow> string"

subsection \<open>Truthiness, attribute access, iteration\<close>

fun py_truthy :: "pyval \<Rightarrow> bool" where
  "py_truthy PNone = False"
| "py_truthy (PBool b) = b"
| "py_truthy (PInt n) = (n \<noteq> 0)"
| "py_truthy (PFloat (Fin q)) = (q \<noteq> 0)"
| "py_truthy (PFloat NegZero) = False"
| "py_truthy (PFloat _) = True"
| "py_truthy (PStr s) = (s \<noteq> [])"
| "py_truthy (PList xs) = (xs \<noteq> [])"
| "py_truthy (PDict kvs) = (kvs \<noteq> [])"

text \<open>\<open>d.get(k, default)\<close>: only a dictionary has the method.\<close>

fun py_get :: "pyval \<Rightarrow> string \<Rightarrow> pyval \<Rightarrow> exc + pyval" where
  "py_get (PDict kvs) k dflt = Inr (case map_of kvs k of Some v \<Rightarrow> v | None \<Rightarrow> dflt)"
| "py_get _ k dflt = Inl AttributeError"

text \<open>\<open>d.items()\<close>.\<close>

fun py_items :: "pyval \<Rightarrow> exc + (string \<times> pyval) list" where
  "py_items (PDict kvs) = Inr kvs"
| "py_items _ = Inl AttributeError"

text \<open>
  \<open>for x in v\<close>: a list yields its elements, a string its characters, a dictionary its
  keys; the other values are not iterable.
\<close>

fun py_iter :: "pyval \<Rightarrow> exc + pyval list" where
  "py_iter (PList xs) = Inr xs"
| "py_iter (PStr s) = Inr (map (\<lambda>c. PStr [c]) s)"
| "py_iter (PDict kvs) = Inr (map (\<lambda>kv. PStr (fst kv)) kvs)"
| "py_iter _ = Inl TypeError"

text \<open>\<open>isinstance(v, int)\<close> holds for integers and for booleans, which count as 0 and 1.\<close>

fun as_int :: "pyval \<Rightarrow> int option" where
  "as_int (PInt n) = Some n"
| "as_int (PBool b) = Some (if b then 1 else 0)"
| "as_int _ = None"

subsection \<open>Strings\<close>

text \<open>\<open>str.lower\<close> on the code points below U+0100.\<close>

definition lower_char :: "char \<Rightarrow> char" where
  "lower_char c =
     (let n = (of_char c :: nat)
      in if (65 \<le> n \<and> n \<le> 90) \<or> (192 \<le> n \<and> n \<le> 222 \<and> n \<noteq> 215)
         then char_of (n + 32) else c)"

definition lower :: "string \<Rightarrow> string" where
  "lower s = map lower_char s"

text \<open>\<open>sep.join(parts)\<close> for parts that are strings already.\<close>

fun join :: "string \<Rightarrow> string list \<Rightarrow> string" where
  "join sep [] = []"
| "join sep [x] = x"
| "join sep (x # y # ys) = x @ sep @ join sep (y # ys)"

text \<open>\<open>text.startswith(kw)\<close> and the substring test \<open>kw in text\<close>.\<close>

fun starts_with :: "string \<Rightarrow> string \<Rightarrow> bool" where
  "starts_with text [] = True"
| "starts_with [] (k # ks) = False"
| "starts_with (c # cs) (k # ks) = (c = k \<and> starts_with cs ks)"

fun py_in :: "string \<Rightarrow> string \<Rightarrow> bool" where
  "py_in kw [] = (kw = [])"
| "py_in kw (c # cs) = (starts_with (c # cs) kw \<or> py_in kw cs)"

text \<open>
  \<open>str(n)\<close> for an integer, from the digits of a natural number.  The interpreter refuses to print an integer of more than
  4300 digits; the JSON decoder refuses to read one, so the integers of a decoded payload
  are all printed.
\<close>

function str_nat :: "int \<Rightarrow> string" where
  "str_nat n = (if n < 10 then [char_of (48 + n)]
                else str_nat (n div 10) @ [char_of (48 + n mod 10)])"
  by pat_completeness auto

termination
  by (relation "measure nat") auto

declare str_nat.simps [simp del]

definition str_int :: "int \<Rightarrow> string" where
  "str_int i = (if i < 0 then CHR ''-'' # str_nat (- i) else str_nat i)"

text \<open>
  \<open>repr\<close> of a string: single quotes unless the text has a single quote and no double
  quote; backslash, the chosen quote, tab, newline and carriage return are escaped, and
  the unprintable code points are written \<open>\xhh\<close>.
\<close>

definition hex_digit :: "nat \<Rightarrow> char" where
  "hex_digit n = (if n < 10 then char_of (48 + n) else char_of (87 + n))"

definition repr_char :: "char \<Rightarrow> char \<Rightarrow> string" where
  "repr_char quote c =
     (let n = (of_char c :: nat)
      in if c = quote \<or> c = CHR 0x5C then [CHR 0x5C, c]
         else if c = CHR 0x09 then [CHR 0x5C, CHR ''t'']
         else if c = CHR 0x0A then [CHR 0x5C, CHR ''n'']
         else if c = CHR 0x0D then [CHR 0x5C, CHR ''r'']
         else if n < 32 \<or> (127 \<le> n \<and> n \<le> 160) \<or> n = 173
           then [CHR 0x5C, CHR ''x'', hex_digit (n div 16), hex_digit (n mod 16)]
         else [c])"

definition repr_str :: "string \<Rightarrow> string" where
  "repr_str s =
     (let quote = (if CHR 0x27 \<in> set s \<and> CHR 0x22 \<notin> set s then CHR 0x22 else CHR 0x27)
      in quote # concat (map (repr_char quote) s) @ [quote])"

text \<open>\<open>repr(v)\<close> and \<open>str(v)\<close>; the two differ on strings only.\<close>

fun py_repr :: "builtins \<Rightarrow> pyval \<Rightarrow> string" where
  "py_repr env PNone = ''None''"
| "py_repr env (PBool b) = (if b then ''True'' else ''False'')"
| "py_repr env (PInt n) = str_int n"
| "py_repr env (PFloat x) = float_repr env x"
| "py_repr env (PStr s) = repr_str s"
| "py_repr env (PList xs) = ''['' @ join '', '' (map (py_repr env) xs) @ '']''"
| "py_repr env (PDict kvs) =
     ''{'' @ join '', '' (map (\<lambda>kv. repr_str (fst kv) @ '': '' @ py_repr env (snd kv)) kvs) @ ''}''"

fun py_str :: "builtins \<Rightarrow> pyval \<Rightarrow> string" where
  "py_str env (PStr s) = s"
| "py_str env v = py_repr env v"

section \<open>Mental-health crisis detector\<close>

text \<open>\<open>MentalHealthSecurityService._load_risk_keywords\<close>.\<close>

definition crisis_keywords :: "string list" where
  "crisis_keywords =
     [''suicide'', ''kill myself'', ''end it all'', ''not worth living'',
      ''better off dead'', ''hurt myself'', ''self-harm'', ''cutting'']"

definition high_risk_mh_keywords :: "string list" where
  "high_risk_mh_keywords =
     [''hopeless'', ''worthless'', ''trapped'', ''burden'', ''pain'',
      ''can'' @ [CHR 0x27] @ ''t go on'', ''no point'', ''give up'']"

definition moderate_risk_mh_keywords :: "string list" where
  "moderate_risk_mh_keywords =
     [''depressed'', ''anxious'', ''overwhelmed'', ''stressed'',
      ''panic'', ''worried'', ''sad'', ''lonely'']"

text \<open>
  The keyword loops of both services have one shape:
  \<open>for kw in kws: if kw in text: score += w; factors.append(label + kw)\<close>.
  The state is the pair of the running score and the list of factors.
\<close>

fun kw_loop :: "string \<Rightarrow> int \<Rightarrow> string \<Rightarrow> string list \<Rightarrow> int \<times> string list \<Rightarrow> int \<times> string list" where
  "kw_loop text w label [] st = st"
| "kw_loop text w label (kw # kws) (score, factors) =
     (if py_in kw text
      then kw_loop text w label kws (score + w, factors @ [label @ kw])
      else kw_loop text w label kws (score, factors))"

record crisis_result =
  risk_level :: string
  crisis_risk_score :: int
  risk_indicators :: "string list"
  crisis_intervention_needed :: bool
  professional_referral_suggested :: bool
  crisis_timestamp :: string

text \<open>
  The body of the \<open>try\<close> block of \<open>assess_crisis_risk\<close>.  \<open>now\<close> is the text of
  \<open>datetime.utcnow().isoformat()\<close> at the call.
\<close>

definition crisis_text_inputs :: "builtins \<Rightarrow> pyval \<Rightarrow> exc + string list" where
  "crisis_text_inputs env user_input =
     (case py_get user_input ''responses'' (PDict []) of Inl e \<Rightarrow> Inl e | Inr responses \<Rightarrow>
      case py_items responses of Inl e \<Rightarrow> Inl e | Inr items \<Rightarrow>
      case py_get user_input ''symptoms'' (PList []) of Inl e \<Rightarrow> Inl e | Inr symptoms \<Rightarrow>
      case py_iter symptoms of Inl e \<Rightarrow> Inl e | Inr ss \<Rightarrow>
      case py_get user_input ''triggers'' (PList []) of Inl e \<Rightarrow> Inl e | Inr triggers \<Rightarrow>
      case py_iter triggers of Inl e \<Rightarrow> Inl e | Inr ts \<Rightarrow>
      case py_get user_input ''support_system'' (PStr []) of Inl e \<Rightarrow> Inl e | Inr support_system \<Rightarrow>
      Inr (concat (map (\<lambda>kv. case snd kv of PStr v \<Rightarrow> [lower v] | _ \<Rightarrow> []) items)
           @ map (\<lambda>s. lower (py_str env s)) ss
           @ map (\<lambda>t. lower (py_str env t)) ts
           @ (if py_truthy support_system then [lower (py_str env support_system)] else [])))"

definition rating :: "pyval \<Rightarrow> string \<Rightarrow> int option" where
  "rating responses k =
     (case responses of PDict kvs \<Rightarrow> (case map_of kvs k of Some v \<Rightarrow> as_int v | None \<Rightarrow> None)
      | _ \<Rightarrow> None)"

definition numeric_overlay :: "pyval \<Rightarrow> int \<times> string list \<Rightarrow> int \<times> string list" where
  "numeric_overlay responses st =
     (let st1 = (case rating responses ''mood_rating'' of
                   Some m \<Rightarrow> if m \<le> 3 then (fst st + 3, snd st @ [''Very low mood rating'']) else st
                 | None \<Rightarrow> st);
          st2 = (case rating responses ''anxiety_level'' of
                   Some a \<Rightarrow> if a \<ge> 8 then (fst st1 + 2, snd st1 @ [''High anxiety level'']) else st1
                 | None \<Rightarrow> st1)
      in (case rating responses ''stress_level'' of
            Some s \<Rightarrow> if s \<ge> 8 then (fst st2 + 2, snd st2 @ [''High stress level'']) else st2
          | None \<Rightarrow> st2))"

definition crisis_level :: "int \<Rightarrow> string" where
  "crisis_level score =
     (if score \<ge> 10 then ''crisis''
      else if score \<ge> 6 then ''high''
      else if score \<ge> 3 then ''moderate''
      else ''low'')"

definition crisis_scores :: "pyval \<Rightarrow> string \<Rightarrow> int \<times> string list" where
  "crisis_scores responses all_text =
     numeric_overlay responses
       (kw_loop all_text 2 ''Moderate risk indicator: '' moderate_risk_mh_keywords
         (kw_loop all_text 5 ''High risk indicator: '' high_risk_mh_keywords
           (kw_loop all_text 10 ''Crisis indicator: '' crisis_keywords (0, []))))"

definition assess_crisis_body :: "builtins \<Rightarrow> string \<Rightarrow> pyval \<Rightarrow> exc + crisis_result" where
  "assess_crisis_body env now user_input =
     (case crisis_text_inputs env user_input of Inl e \<Rightarrow> Inl e | Inr text_inputs \<Rightarrow>
      case py_get user_input ''responses'' (PDict []) of Inl e \<Rightarrow> Inl e | Inr responses \<Rightarrow>
      let st = crisis_scores responses (join '' '' text_inputs);
          level = crisis_level (fst st)
      in Inr \<lparr>risk_level = level,
              crisis_risk_score = fst st,
              risk_indicators = snd st,
              crisis_intervention_needed = (level = ''crisis''),
              professional_referral_suggested = (level \<in> set [''crisis'', ''high'']),
              crisis_timestamp = now\<rparr>)"

text \<open>The \<open>except Exception\<close> handler turns every exception of the body into the fixed result.\<close>

definition crisis_failsafe :: "string \<Rightarrow> crisis_result" where
  "crisis_failsafe now =
     \<lparr>risk_level = ''high'',
      crisis_risk_score = 999,
      risk_indicators = [''Assessment system error - defaulting to high risk''],
      crisis_intervention_needed = True,
      professional_referral_suggested = True,
      crisis_timestamp = now\<rparr>"

definition assess_crisis_risk :: "builtins \<Rightarrow> string \<Rightarrow> pyval \<Rightarrow> crisis_result" where
  "assess_crisis_risk env now user_input =
     (case assess_crisis_body env now user_input of
        Inl e \<Rightarrow> crisis_failsafe now
      | Inr r \<Rightarrow> r)"


section \<open>Risk assessment service\<close>

text \<open>
  The tables that \<open>RiskAssessmentService.__init__\<close> stores in the instance.  No
  method assigns to them, so they are constants.
\<close>

definition emergency_keywords :: "string list" where
  "emergency_keywords =
     [''chest pain'', ''difficulty breathing'', ''shortness of breath'', ''severe bleeding'',
      ''unconscious'', ''seizure'', ''stroke symptoms'', ''heart attack'',
      ''severe allergic reaction'', ''poisoning'', ''severe burns'', ''broken bone'',
      ''head injury'', ''severe abdominal pain'']"

definition high_risk_keywords :: "string list" where
  "high_risk_keywords =
     [''severe pain'', ''high fever'', ''persistent vomiting'', ''dehydration'',
      ''severe headache'', ''vision problems'', ''severe dizziness'', ''fainting'',
      ''blood in stool'', ''blood in urine'', ''severe rash'', ''difficulty swallowing'']"

definition moderate_risk_keywords :: "string list" where
  "moderate_risk_keywords =
     [''moderate pain'', ''fever'', ''nausea'', ''vomiting'', ''diarrhea'', ''headache'',
      ''fatigue'', ''muscle aches'', ''sore throat'', ''cough'', ''runny nose'']"

record vital_range =
  normal :: "rat \<times> rat"
  concerning :: "rat \<times> rat"
  critical :: "rat \<times> rat"

definition vital_ranges :: "(string \<times> vital_range) list" where
  "vital_ranges =
     [(''heart_rate'', \<lparr>normal = (60, 100), concerning = (50, 120), critical = (40, 150)\<rparr>),
      (''systolic_bp'', \<lparr>normal = (90, 140), concerning = (80, 160), critical = (70, 180)\<rparr>),
      (''diastolic_bp'', \<lparr>normal = (60, 90), concerning = (50, 100), critical = (40, 110)\<rparr>),
      (''temperature_f'',
         \<lparr>normal = (97, 199 / 2), concerning = (96, 101), critical = (95, 103)\<rparr>),
      (''respiratory_rate'', \<lparr>normal = (12, 20), concerning = (10, 24), critical = (8, 30)\<rparr>),
      (''oxygen_saturation'', \<lparr>normal = (95, 100), concerning = (90, 94), critical = (0, 89)\<rparr>)]"

text \<open>
  The dictionaries that the component scorers return.  A key that a handler's fallback
  dictionary leaves out is an optional field.
\<close>

record risk_component =
  score :: int
  factors :: "string list"

record symptom_risk = risk_component +
  symptom_count :: nat
  emergency_symptoms_detected :: "bool option"

record vital_risk = risk_component +
  abnormal_vitals :: "string list"
  vitals_provided :: "string list option"

record context_risk = risk_component +
  age_category :: string

subsection \<open>Symptom scorer\<close>

text \<open>\<open>sep.join(v)\<close>: every item of the iterable must be a string.\<close>

fun str_items :: "pyval list \<Rightarrow> exc + string list" where
  "str_items [] = Inr []"
| "str_items (PStr s # xs) =
     (case str_items xs of Inl e \<Rightarrow> Inl e | Inr ss \<Rightarrow> Inr (s # ss))"
| "str_items (_ # xs) = Inl TypeError"

definition py_join :: "string \<Rightarrow> pyval \<Rightarrow> exc + string" where
  "py_join sep v =
     (case py_iter v of Inl e \<Rightarrow> Inl e | Inr xs \<Rightarrow>
      case str_items xs of Inl e \<Rightarrow> Inl e | Inr ss \<Rightarrow> Inr (join sep ss))"

fun py_len :: "pyval \<Rightarrow> exc + nat" where
  "py_len (PList xs) = Inr (length xs)"
| "py_len (PStr s) = Inr (length s)"
| "py_len (PDict kvs) = Inr (length kvs)"
| "py_len _ = Inl TypeError"

definition symptom_scores :: "string \<Rightarrow> int \<times> string list" where
  "symptom_scores symptom_text =
     (let st1 = kw_loop symptom_text 8 ''Emergency symptom detected: '' emergency_keywords (0, []);
          st2 = kw_loop symptom_text 5 ''High-risk symptom: '' high_risk_keywords st1;
          st3 = kw_loop symptom_text 2 ''Moderate-risk symptom: '' moderate_risk_keywords st2;
          st4 = (if py_in ''fever'' symptom_text \<and> py_in ''headache'' symptom_text
                 then (fst st3 + 2, snd st3 @ [''Fever + headache combination increases risk''])
                 else st3)
      in if py_in ''chest pain'' symptom_text \<and> py_in ''shortness of breath'' symptom_text
         then (fst st4 + 6,
               snd st4 @ [''Chest pain + breathing difficulty - high risk combination''])
         else st4)"

definition assess_symptom_body :: "pyval \<Rightarrow> exc + symptom_risk" where
  "assess_symptom_body symptoms =
     (case py_join '' '' symptoms of Inl e \<Rightarrow> Inl e | Inr joined \<Rightarrow>
      case py_len symptoms of Inl e \<Rightarrow> Inl e | Inr n \<Rightarrow>
      let symptom_text = lower joined;
          st = symptom_scores symptom_text
      in Inr \<lparr>score = min (fst st) 10,
              factors = snd st,
              symptom_count = n,
              emergency_symptoms_detected =
                Some (list_ex (\<lambda>es. py_in es symptom_text) emergency_keywords)\<rparr>)"

text \<open>\<open>_assess_symptom_risk\<close>: the body, and the handler's fallback dictionary.\<close>

definition assess_symptom_risk :: "pyval \<Rightarrow> symptom_risk" where
  "assess_symptom_risk symptoms =
     (case assess_symptom_body symptoms of
        Inl e \<Rightarrow> \<lparr>score = 5, factors = [''Symptom assessment error''],
                   symptom_count = 0, emergency_symptoms_detected = None\<rparr>
      | Inr r \<Rightarrow> r)"

subsection \<open>Vital signs scorer\<close>

text \<open>
  \<open>float(n)\<close> for an integer rounds to the nearest float, a tie to the even one.  An
  integer of at most 53 bits is a float.  A longer one of \<open>b\<close> bits lies between two
  neighbouring multiples of \<open>2 ^ (b - 53)\<close>, which are floats.
\<close>

function bit_length :: "int \<Rightarrow> nat" where
  "bit_length n = (if n \<le> 0 then 0 else Suc (bit_length (n div 2)))"
  by pat_completeness auto

termination
  by (relation "measure nat") auto

declare bit_length.simps [simp del]

definition round_double :: "int \<Rightarrow> int" where
  "round_double n =
     (let a = \<bar>n\<bar>; b = bit_length a
      in if b \<le> 53 then n
         else let u = 2 ^ (b - 53); q = a div u; r = a mod u;
                  m = (if 2 * r > u \<or> (2 * r = u \<and> odd q) then q + 1 else q)
              in sgn n * (m * u))"

text \<open>
  \<open>float(v)\<close>.  An integer that rounds beyond the largest float raises
  \<open>OverflowError\<close>.  A string goes through the builtin of the environment.
\<close>

fun py_float :: "builtins \<Rightarrow> pyval \<Rightarrow> exc + pyfloat" where
  "py_float env (PBool b) = Inr (Fin (if b then 1 else 0))"
| "py_float env (PInt n) =
     (if \<bar>n\<bar> \<ge> 2 ^ 1024 - 2 ^ 970 then Inl OverflowError
      else Inr (Fin (of_int (round_double n))))"
| "py_float env (PFloat x) = Inr x"
| "py_float env (PStr s) =
     (case float_of_str env s of None \<Rightarrow> Inl ValueError | Some x \<Rightarrow> Inr x)"
| "py_float env _ = Inl TypeError"

text \<open>The chained comparison \<open>lo <= x <= hi\<close> of a float with two numbers of a table.\<close>

fun num_le_float :: "rat \<Rightarrow> pyfloat \<Rightarrow> bool" where
  "num_le_float c (Fin q) = (c \<le> q)"
| "num_le_float c NegZero = (c \<le> 0)"
| "num_le_float c PosInf = True"
| "num_le_float c NegInf = False"
| "num_le_float c NaN = False"

fun float_le_num :: "pyfloat \<Rightarrow> rat \<Rightarrow> bool" where
  "float_le_num (Fin q) c = (q \<le> c)"
| "float_le_num NegZero c = (0 \<le> c)"
| "float_le_num PosInf c = False"
| "float_le_num NegInf c = True"
| "float_le_num NaN c = False"

definition in_band :: "rat \<times> rat \<Rightarrow> pyfloat \<Rightarrow> bool" where
  "in_band band x = (num_le_float (fst band) x \<and> float_le_num x (snd band))"

text \<open>
  The loop over \<open>vitals.items()\<close>.  The state is the score, the factors and the names
  of the abnormal vitals.  Only \<open>ValueError\<close> is caught inside the loop.
\<close>

fun vital_loop ::
  "builtins \<Rightarrow> (string \<times> pyval) list \<Rightarrow> int \<times> string list \<times> string list
     \<Rightarrow> exc + (int \<times> string list \<times> string list)" where
  "vital_loop env [] st = Inr st"
| "vital_loop env ((vital_name, v) # rest) (risk_score, risk_factors, abnormal) =
     (if v = PNone \<or> v = PStr [] then vital_loop env rest (risk_score, risk_factors, abnormal)
      else case py_float env v of
        Inl ValueError \<Rightarrow>
          vital_loop env rest
            (risk_score,
             risk_factors @ [''Invalid '' @ vital_name @ '' value: '' @ py_str env v],
             abnormal)
      | Inl e \<Rightarrow> Inl e
      | Inr vital_value \<Rightarrow>
          (case map_of vital_ranges vital_name of
             None \<Rightarrow> vital_loop env rest (risk_score, risk_factors, abnormal)
           | Some ranges \<Rightarrow>
               if \<not> in_band (critical ranges) vital_value then
                 vital_loop env rest
                   (risk_score + 6,
                    risk_factors @ [''Critical '' @ vital_name @ '': '' @ float_repr env vital_value],
                    abnormal @ [vital_name])
               else if \<not> in_band (concerning ranges) vital_value then
                 vital_loop env rest
                   (risk_score + 4,
                    risk_factors @ [''Concerning '' @ vital_name @ '': '' @ float_repr env vital_value],
                    abnormal @ [vital_name])
               else if \<not> in_band (normal ranges) vital_value then
                 vital_loop env rest
                   (risk_score + 2,
                    risk_factors @ [''Abnormal '' @ vital_name @ '': '' @ float_repr env vital_value],
                    abnormal @ [vital_name])
               else vital_loop env rest (risk_score, risk_factors, abnormal)))"

definition assess_vital_signs_body :: "builtins \<Rightarrow> pyval \<Rightarrow> exc + vital_risk" where
  "assess_vital_signs_body env vitals =
     (case py_items vitals of Inl e \<Rightarrow> Inl e | Inr items \<Rightarrow>
      case vital_loop env items (0, [], []) of Inl e \<Rightarrow> Inl e | Inr st \<Rightarrow>
      Inr \<lparr>score = min (fst st) 8,
           factors = fst (snd st),
           abnormal_vitals = snd (snd st),
           vitals_provided = Some (map fst items)\<rparr>)"

definition assess_vital_signs_risk :: "builtins \<Rightarrow> pyval \<Rightarrow> vital_risk" where
  "assess_vital_signs_risk env vitals =
     (case assess_vital_signs_body env vitals of
        Inl e \<Rightarrow> \<lparr>score = 3, factors = [''Vital signs assessment error''],
                   abnormal_vitals = [], vitals_provided = None\<rparr>
      | Inr r \<Rightarrow> r)"


subsection \<open>Context scorer\<close>

text \<open>
  An ordering comparison of a value with an integer of the source: numbers compare
  (a boolean as 0 or 1), anything else raises \<open>TypeError\<close>.
\<close>

fun py_num :: "pyval \<Rightarrow> exc + pyfloat" where
  "py_num (PInt n) = Inr (Fin (of_int n))"
| "py_num (PBool b) = Inr (Fin (if b then 1 else 0))"
| "py_num (PFloat x) = Inr x"
| "py_num _ = Inl TypeError"

definition py_ge :: "pyval \<Rightarrow> int \<Rightarrow> exc + bool" where
  "py_ge v c = (case py_num v of Inl e \<Rightarrow> Inl e | Inr x \<Rightarrow> Inr (num_le_float (of_int c) x))"

definition py_le :: "pyval \<Rightarrow> int \<Rightarrow> exc + bool" where
  "py_le v c = (case py_num v of Inl e \<Rightarrow> Inl e | Inr x \<Rightarrow> Inr (float_le_num x (of_int c)))"

text \<open>The block \<open>if age: ...\<close> on the running score and factors.\<close>

definition age_risk :: "pyval \<Rightarrow> int \<times> string list \<Rightarrow> exc + (int \<times> string list)" where
  "age_risk age st =
     (if py_truthy age then
        case py_ge age 65 of Inl e \<Rightarrow> Inl e | Inr ge65 \<Rightarrow>
        if ge65 then Inr (fst st + 2, snd st @ [''Age 65+ increases risk for complications''])
        else case py_le age 2 of Inl e \<Rightarrow> Inl e | Inr le2 \<Rightarrow>
        if le2 then Inr (fst st + 3, snd st @ [''Very young age increases risk''])
        else case py_le age 12 of Inl e \<Rightarrow> Inl e | Inr le12 \<Rightarrow>
        if le12 then Inr (fst st + 1, snd st @ [''Pediatric patient - increased monitoring needed''])
        else Inr st
      else Inr st)"

definition high_risk_conditions :: "string list" where
  "high_risk_conditions =
     [''diabetes'', ''heart disease'', ''hypertension'', ''asthma'', ''copd'',
      ''cancer'', ''immunocompromised'', ''kidney disease'', ''liver disease'']"

text \<open>The loop over \<open>medical_history\<close>; only a string has \<open>lower\<close>.\<close>

fun history_loop :: "pyval list \<Rightarrow> int \<times> string list \<Rightarrow> exc + (int \<times> string list)" where
  "history_loop [] st = Inr st"
| "history_loop (PStr condition # rest) (risk_score, risk_factors) =
     (if list_ex (\<lambda>risk_condition. py_in risk_condition (lower condition)) high_risk_conditions
      then history_loop rest
             (risk_score + 2, risk_factors @ [''High-risk medical condition: '' @ condition])
      else history_loop rest (risk_score, risk_factors))"
| "history_loop (_ # rest) st = Inl AttributeError"

text \<open>\<open>_get_age_category\<close>.\<close>

definition get_age_category :: "pyval \<Rightarrow> exc + string" where
  "get_age_category age =
     (case py_le age 2 of Inl e \<Rightarrow> Inl e | Inr le2 \<Rightarrow>
      if le2 then Inr ''infant''
      else case py_le age 12 of Inl e \<Rightarrow> Inl e | Inr le12 \<Rightarrow>
      if le12 then Inr ''child''
      else case py_le age 17 of Inl e \<Rightarrow> Inl e | Inr le17 \<Rightarrow>
      if le17 then Inr ''adolescent''
      else case py_le age 64 of Inl e \<Rightarrow> Inl e | Inr le64 \<Rightarrow>
      if le64 then Inr ''adult'' else Inr ''senior'')"

definition assess_context_body :: "pyval \<Rightarrow> exc + context_risk" where
  "assess_context_body ctx =
     (case py_get ctx ''age'' PNone of Inl e \<Rightarrow> Inl e | Inr age \<Rightarrow>
      case age_risk age (0, []) of Inl e \<Rightarrow> Inl e | Inr st1 \<Rightarrow>
      case py_get ctx ''medical_history'' (PList []) of Inl e \<Rightarrow> Inl e | Inr medical_history \<Rightarrow>
      case py_iter medical_history of Inl e \<Rightarrow> Inl e | Inr conditions \<Rightarrow>
      case history_loop conditions st1 of Inl e \<Rightarrow> Inl e | Inr st2 \<Rightarrow>
      case py_get ctx ''pregnant'' PNone of Inl e \<Rightarrow> Inl e | Inr pregnant \<Rightarrow>
      let st3 = (if py_truthy pregnant
                 then (fst st2 + 2, snd st2 @ [''Pregnancy requires special medical consideration''])
                 else st2)
      in case (if py_truthy age then get_age_category age else Inr ''unknown'') of
           Inl e \<Rightarrow> Inl e
         | Inr category \<Rightarrow>
             Inr \<lparr>score = min (fst st3) 6, factors = snd st3, age_category = category\<rparr>)"

text \<open>\<open>_assess_context_risk\<close>.\<close>

definition assess_context_risk :: "pyval \<Rightarrow> context_risk" where
  "assess_context_risk ctx =
     (case assess_context_body ctx of
        Inl e \<Rightarrow> \<lparr>score = 1, factors = [''Context assessment error''],
                   age_category = ''unknown''\<rparr>
      | Inr r \<Rightarrow> r)"

subsection \<open>Follow-up scorer\<close>

text \<open>
  \<open>int(v)\<close>.  A float is truncated towards zero; a string is stripped of white space
  (tab to carriage return, space, U+0085 and U+00A0) and must be an optional sign and
  decimal digits, which single underscores may separate.
\<close>

definition is_int_space :: "char \<Rightarrow> bool" where
  "is_int_space c =
     (let n = (of_char c :: nat)
      in (9 \<le> n \<and> n \<le> 13) \<or> n = 32 \<or> n = 133 \<or> n = 160)"

definition int_strip :: "string \<Rightarrow> string" where
  "int_strip s = rev (dropWhile is_int_space (rev (dropWhile is_int_space s)))"

definition digit_val :: "char \<Rightarrow> nat option" where
  "digit_val c =
     (let n = (of_char c :: nat) in if 48 \<le> n \<and> n \<le> 57 then Some (n - 48) else None)"

fun int_digits :: "int \<Rightarrow> string \<Rightarrow> int option" where
  "int_digits acc [] = None"
| "int_digits acc [c] =
     (case digit_val c of None \<Rightarrow> None | Some d \<Rightarrow> Some (10 * acc + int d))"
| "int_digits acc (c # u # cs) =
     (case digit_val c of
        None \<Rightarrow> None
      | Some d \<Rightarrow>
          if u = CHR ''_'' then int_digits (10 * acc + int d) cs
          else int_digits (10 * acc + int d) (u # cs))"

definition int_of_str :: "string \<Rightarrow> int option" where
  "int_of_str s =
     (case int_strip s of
        [] \<Rightarrow> None
      | c # cs \<Rightarrow>
          if c = CHR ''-'' then map_option uminus (int_digits 0 cs)
          else if c = CHR ''+'' then int_digits 0 cs
          else int_digits 0 (c # cs))"

text \<open>
  The interpreter's limit on the conversion of a decimal string to an integer: a string
  with more digits than these (the default of the interpreter, which the service does
  not change) is refused, whatever the digits are.
\<close>

definition max_str_digits :: nat where
  "max_str_digits = 4300"

definition int_digit_count :: "string \<Rightarrow> nat" where
  "int_digit_count s = length (filter (\<lambda>c. digit_val c \<noteq> None) s)"

fun py_int :: "pyval \<Rightarrow> exc + int" where
  "py_int (PInt n) = Inr n"
| "py_int (PBool b) = Inr (if b then 1 else 0)"
| "py_int (PFloat (Fin q)) = Inr (if q < 0 then - \<lfloor>- q\<rfloor> else \<lfloor>q\<rfloor>)"
| "py_int (PFloat NegZero) = Inr 0"
| "py_int (PFloat NaN) = Inl ValueError"
| "py_int (PFloat _) = Inl OverflowError"
| "py_int (PStr s) =
     (if int_digit_count s > max_str_digits then Inl ValueError
      else case int_of_str s of None \<Rightarrow> Inl ValueError | Some n \<Rightarrow> Inr n)"
| "py_int _ = Inl TypeError"

text \<open>The three blocks of the body, each on the running score and factors.\<close>

definition pain_risk :: "pyval \<Rightarrow> int \<times> string list \<Rightarrow> exc + (int \<times> string list)" where
  "pain_risk pain_scale st =
     (if py_truthy pain_scale then
        case py_int pain_scale of Inl e \<Rightarrow> Inl e | Inr pain_level \<Rightarrow>
        if pain_level \<ge> 8
          then Inr (fst st + 3, snd st @ [''Severe pain level: '' @ str_int pain_level @ ''/10''])
        else if pain_level \<ge> 6
          then Inr (fst st + 2, snd st @ [''Moderate-severe pain: '' @ str_int pain_level @ ''/10''])
        else Inr st
      else Inr st)"

definition progression_risk :: "pyval \<Rightarrow> int \<times> string list \<Rightarrow> int \<times> string list" where
  "progression_risk progression st =
     (if progression = PStr ''Getting worse'' then (fst st + 2, snd st @ [''Symptoms are worsening''])
      else if progression = PStr ''Fluctuating''
        then (fst st + 1, snd st @ [''Symptoms are fluctuating''])
      else st)"

definition breathing_risk :: "pyval \<Rightarrow> int \<times> string list \<Rightarrow> int \<times> string list" where
  "breathing_risk breathing st =
     (if breathing = PStr ''yes''
      then (fst st + 4, snd st @ [''Patient reports breathing difficulty''])
      else st)"

definition assess_followup_body :: "pyval \<Rightarrow> exc + risk_component" where
  "assess_followup_body follow_up_data =
     (case py_get follow_up_data ''pain_scale'' PNone of Inl e \<Rightarrow> Inl e | Inr pain_scale \<Rightarrow>
      case pain_risk pain_scale (0, []) of Inl e \<Rightarrow> Inl e | Inr st1 \<Rightarrow>
      case py_get follow_up_data ''symptom_progression'' PNone of
        Inl e \<Rightarrow> Inl e | Inr progression \<Rightarrow>
      case py_get follow_up_data ''breathing_difficulty'' PNone of
        Inl e \<Rightarrow> Inl e | Inr breathing \<Rightarrow>
      let st3 = breathing_risk breathing (progression_risk progression st1)
      in Inr \<lparr>score = min (fst st3) 5, factors = snd st3\<rparr>)"

text \<open>\<open>_assess_followup_risk\<close>.\<close>

definition assess_followup_risk :: "pyval \<Rightarrow> risk_component" where
  "assess_followup_risk follow_up_data =
     (case assess_followup_body follow_up_data of
        Inl e \<Rightarrow> \<lparr>score = 1, factors = [''Follow-up assessment error'']\<rparr>
      | Inr r \<Rightarrow> r)"

subsection \<open>Triage aggregator\<close>

text \<open>
  \<open>_determine_final_risk_level\<close>: level, urgency, triage category and time to care.
\<close>

record final_level =
  fl_overall_risk_level :: string
  fl_urgency_level :: string
  fl_triage_category :: string
  fl_time_to_care :: string

definition determine_final_risk_level :: "int \<Rightarrow> final_level" where
  "determine_final_risk_level total_score =
     (if total_score \<ge> 15 then
        \<lparr>fl_overall_risk_level = ''CRITICAL'', fl_urgency_level = ''emergency'',
         fl_triage_category = ''immediate'', fl_time_to_care = ''Immediate (0-15 minutes)''\<rparr>
      else if total_score \<ge> 10 then
        \<lparr>fl_overall_risk_level = ''HIGH'', fl_urgency_level = ''urgent'',
         fl_triage_category = ''urgent'', fl_time_to_care = ''Within 1 hour''\<rparr>
      else if total_score \<ge> 6 then
        \<lparr>fl_overall_risk_level = ''MODERATE'', fl_urgency_level = ''semi_urgent'',
         fl_triage_category = ''semi_urgent'', fl_time_to_care = ''Within 2-4 hours''\<rparr>
      else if total_score \<ge> 3 then
        \<lparr>fl_overall_risk_level = ''LOW_MODERATE'', fl_urgency_level = ''less_urgent'',
         fl_triage_category = ''less_urgent'', fl_time_to_care = ''Within 24 hours''\<rparr>
      else
        \<lparr>fl_overall_risk_level = ''LOW'', fl_urgency_level = ''routine'',
         fl_triage_category = ''non_urgent'', fl_time_to_care = ''Routine care (1-7 days)''\<rparr>)"

text \<open>
  \<open>_generate_recommendations\<close>.  The pictographs that open the first text of each band
  lie beyond U+00FF and are written as their UTF-8 bytes; no function inspects them.
\<close>

definition generate_recommendations :: "string \<Rightarrow> string list" where
  "generate_recommendations level =
     (if level = ''CRITICAL'' then
        [[CHR 0xF0, CHR 0x9F, CHR 0x9A, CHR 0xA8]
           @ '' SEEK IMMEDIATE EMERGENCY CARE - Call 911 or go to nearest ER'',
         ''Do not drive yourself - call ambulance or have someone drive you'',
         ''If symptoms worsen while waiting, call 911 immediately'']
      else if level = ''HIGH'' then
        [[CHR 0xE2, CHR 0x9A, CHR 0xA0, CHR 0xEF, CHR 0xB8, CHR 0x8F]
           @ '' Seek urgent medical attention within 1 hour'',
         ''Go to urgent care center or emergency room'',
         ''Do not wait - this requires prompt medical evaluation'']
      else if level = ''MODERATE'' then
        [[CHR 0xF0, CHR 0x9F, CHR 0x93, CHR 0x9E]
           @ '' Contact your healthcare provider within 2-4 hours'',
         ''Monitor symptoms closely for any worsening'',
         ''Consider urgent care if symptoms worsen'']
      else if level = ''LOW_MODERATE'' then
        [[CHR 0xF0, CHR 0x9F, CHR 0x93, CHR 0x85]
           @ '' Schedule appointment with healthcare provider within 24 hours'',
         ''Monitor symptoms and seek care if they worsen'',
         ''Rest, stay hydrated, and follow basic self-care measures'']
      else
        [[CHR 0xF0, CHR 0x9F, CHR 0x8F, CHR 0xA0] @ '' Home care and monitoring appropriate'',
         ''Schedule routine appointment if symptoms persist'',
         ''Rest, fluids, and over-the-counter remedies as appropriate''])"

text \<open>
  The dictionary that \<open>assess_comprehensive_risk\<close> returns.  The handler's dictionary
  has no triage category, time to care, components, timestamp or version, and it alone
  has \<open>error\<close> (the model keeps the exception, the source its text).
\<close>

record assessment_components =
  comp_symptoms :: "symptom_risk option"
  comp_vitals :: "vital_risk option"
  comp_context :: "context_risk option"
  comp_follow_up :: "risk_component option"

record risk_assessment =
  overall_risk_level :: string
  risk_score :: int
  risk_factors :: "string list"
  recommendations :: "string list"
  urgency_level :: string
  triage_category :: "string option"
  time_to_care :: "string option"
  assessment_components :: "assessment_components option"
  assessment_timestamp :: "string option"
  assessment_version :: "string option"
  error :: "exc option"

text \<open>
  The body of the \<open>try\<close> block.  An argument left out is \<open>None\<close>; steps 2 to 4 run
  when their argument is truthy.  \<open>now\<close> is the text of
  \<open>datetime.utcnow().isoformat()\<close> at the call.
\<close>

definition assess_comprehensive_body ::
  "builtins \<Rightarrow> string \<Rightarrow> pyval \<Rightarrow> pyval \<Rightarrow> pyval \<Rightarrow> pyval \<Rightarrow> exc + risk_assessment" where
  "assess_comprehensive_body env now symptoms vitals user_context follow_up_data =
     (let symptom_risk = assess_symptom_risk symptoms;
          vital_risk = (if py_truthy vitals then Some (assess_vital_signs_risk env vitals) else None);
          context_risk = (if py_truthy user_context then Some (assess_context_risk user_context)
                          else None);
          followup_risk = (if py_truthy follow_up_data
                           then Some (assess_followup_risk follow_up_data) else None);
          total = score symptom_risk
                  + (case vital_risk of None \<Rightarrow> 0 | Some r \<Rightarrow> score r)
                  + (case context_risk of None \<Rightarrow> 0 | Some r \<Rightarrow> score r)
                  + (case followup_risk of None \<Rightarrow> 0 | Some r \<Rightarrow> score r);
          all_factors = factors symptom_risk
                  @ (case vital_risk of None \<Rightarrow> [] | Some r \<Rightarrow> factors r)
                  @ (case context_risk of None \<Rightarrow> [] | Some r \<Rightarrow> factors r)
                  @ (case followup_risk of None \<Rightarrow> [] | Some r \<Rightarrow> factors r);
          final_assessment = determine_final_risk_level total
      in Inr \<lparr>overall_risk_level = fl_overall_risk_level final_assessment,
              risk_score = total,
              risk_factors = all_factors,
              recommendations = generate_recommendations (fl_overall_risk_level final_assessment),
              urgency_level = fl_urgency_level final_assessment,
              triage_category = Some (fl_triage_category final_assessment),
              time_to_care = Some (fl_time_to_care final_assessment),
              assessment_components =
                Some \<lparr>comp_symptoms = Some symptom_risk, comp_vitals = vital_risk,
                      comp_context = context_risk, comp_follow_up = followup_risk\<rparr>,
              assessment_timestamp = Some now,
              assessment_version = Some ''2.0'',
              error = None\<rparr>)"

definition comprehensive_failsafe :: "exc \<Rightarrow> risk_assessment" where
  "comprehensive_failsafe e =
     \<lparr>overall_risk_level = ''HIGH'',
      risk_score = 10,
      risk_factors = [''Assessment error - defaulting to high risk for safety''],
      recommendations = [''Seek immediate medical attention due to assessment system error''],
      urgency_level = ''urgent'',
      triage_category = None,
      time_to_care = None,
      assessment_components = None,
      assessment_timestamp = None,
      assessment_version = None,
      error = Some e\<rparr>"

definition assess_comprehensive_risk ::
  "builtins \<Rightarrow> string \<Rightarrow> pyval \<Rightarrow> pyval \<Rightarrow> pyval \<Rightarrow> pyval \<Rightarrow> risk_assessment" where
  "assess_comprehensive_risk env now symptoms vitals user_context follow_up_data =
     (case assess_comprehensive_body env now symptoms vitals user_context follow_up_data of
        Inl e \<Rightarrow> comprehensive_failsafe e
      | Inr r \<Rightarrow> r)"

subsection \<open>An environment for evaluation\<close>





section \<open>Input sanitizer\<close>

text \<open>
  The eight patterns of \<open>sanitize_mental_health_input\<close> use literal characters, the
  classes \<open>[^>]\<close>, \<open>.\<close> and \<open>\s\<close>, and the greedy and lazy star of a class.  A
  pattern is a list of such items.  All are compiled with \<open>re.IGNORECASE\<close>, so a
  literal matches a character with the same lower case.
\<close>

datatype atom = Lit char | NotChar char | AnyChar | Space

text \<open>The class \<open>\s\<close> on the code points below U+0100.\<close>

definition is_space :: "char \<Rightarrow> bool" where
  "is_space c =
     (let n = (of_char c :: nat)
      in (9 \<le> n \<and> n \<le> 13) \<or> (28 \<le> n \<and> n \<le> 32) \<or> n = 133 \<or> n = 160)"

datatype item = One atom | Star atom | LazyStar atom

fun atom_ok :: "atom \<Rightarrow> char \<Rightarrow> bool" where
  "atom_ok (Lit k) c = (lower_char c = lower_char k)"
| "atom_ok (NotChar k) c = (c \<noteq> k)"
| "atom_ok AnyChar c = (c \<noteq> CHR 0x0A)"
| "atom_ok Space c = is_space c"

text \<open>
  Backtracking match of a pattern at the start of a text; the result is the text left
  after the match.  A greedy star tries one more character first, a lazy star the rest
  of the pattern first.
\<close>

fun re_match :: "item list \<Rightarrow> string \<Rightarrow> string option" where
  "re_match [] s = Some s"
| "re_match (One a # p) [] = None"
| "re_match (One a # p) (c # cs) = (if atom_ok a c then re_match p cs else None)"
| "re_match (Star a # p) [] = re_match p []"
| "re_match (Star a # p) (c # cs) =
     (if atom_ok a c
      then (case re_match (Star a # p) cs of Some r \<Rightarrow> Some r | None \<Rightarrow> re_match p (c # cs))
      else re_match p (c # cs))"
| "re_match (LazyStar a # p) [] = re_match p []"
| "re_match (LazyStar a # p) (c # cs) =
     (case re_match p (c # cs) of
        Some r \<Rightarrow> Some r
      | None \<Rightarrow> if atom_ok a c then re_match (LazyStar a # p) cs else None)"

text \<open>
  \<open>re.sub(pattern, repl, text)\<close>: the leftmost matches, none overlapping, are replaced.
  None of the eight patterns matches the empty text; a position where the match is empty
  is passed over.
\<close>

fun re_sub :: "item list \<Rightarrow> string \<Rightarrow> string \<Rightarrow> string" where
  "re_sub p repl [] = []"
| "re_sub p repl (c # cs) =
     (case re_match p (c # cs) of
        None \<Rightarrow> c # re_sub p repl cs
      | Some r \<Rightarrow>
          if length r < length (c # cs) then repl @ re_sub p repl r
          else c # re_sub p repl cs)"

definition lits :: "string \<Rightarrow> item list" where
  "lits s = map (\<lambda>c. One (Lit c)) s"

definition dangerous_patterns :: "item list list" where
  "dangerous_patterns =
     [lits ''<script'' @ [Star (NotChar (CHR ''>'')), One (Lit (CHR ''>'')), LazyStar AnyChar]
        @ lits ''</script>'',
      lits ''javascript:'',
      lits ''onload'' @ [Star Space, One (Lit (CHR ''=''))],
      lits ''onerror'' @ [Star Space, One (Lit (CHR ''=''))],
      lits ''eval'' @ [Star Space, One (Lit (CHR ''(''))],
      lits ''document.'',
      lits ''window.'',
      lits ''alert'' @ [Star Space, One (Lit (CHR ''(''))]]"

text \<open>The inner function \<open>clean_text\<close>, on a string.\<close>

definition clean_text :: "string \<Rightarrow> string" where
  "clean_text s = foldl (\<lambda>t p. re_sub p ''[REMOVED]'' t) s dangerous_patterns"

text \<open>The first error of a list of results, or all the values.\<close>

fun collect :: "(exc + 'a) list \<Rightarrow> exc + 'a list" where
  "collect [] = Inr []"
| "collect (Inl e # rs) = Inl e"
| "collect (Inr x # rs) = (case collect rs of Inl e \<Rightarrow> Inl e | Inr xs \<Rightarrow> Inr (x # xs))"

text \<open>
  The inner function \<open>clean_dict\<close> calls itself once per level of nesting.  The first
  argument counts the nested calls that the interpreter's recursion limit still allows;
  when none is left the call raises \<open>RecursionError\<close>.
\<close>

fun clean_dict :: "nat \<Rightarrow> pyval \<Rightarrow> exc + pyval" where
  "clean_dict 0 d = Inl RecursionError"
| "clean_dict (Suc n) (PDict kvs) =
     (case collect (map (\<lambda>kv. clean_dict n (snd kv)) kvs) of
        Inl e \<Rightarrow> Inl e
      | Inr vs \<Rightarrow> Inr (PDict (zip (map fst kvs) vs)))"
| "clean_dict (Suc n) (PList xs) =
     (case collect (map (clean_dict n) xs) of Inl e \<Rightarrow> Inl e | Inr vs \<Rightarrow> Inr (PList vs))"
| "clean_dict (Suc n) (PStr s) = Inr (PStr (clean_text s))"
| "clean_dict (Suc n) d = Inr d"

text \<open>\<open>data.copy()\<close>: a dictionary and a list have the method.\<close>

fun py_copy :: "pyval \<Rightarrow> exc + pyval" where
  "py_copy (PDict kvs) = Inr (PDict kvs)"
| "py_copy (PList xs) = Inr (PList xs)"
| "py_copy _ = Inl AttributeError"

definition sanitize_body :: "nat \<Rightarrow> pyval \<Rightarrow> exc + pyval" where
  "sanitize_body depth data =
     (case py_copy data of Inl e \<Rightarrow> Inl e | Inr sanitized \<Rightarrow> clean_dict depth sanitized)"

text \<open>\<open>sanitize_mental_health_input\<close>: the handler returns the argument.\<close>

definition sanitize_mental_health_input :: "nat \<Rightarrow> pyval \<Rightarrow> pyval" where
  "sanitize_mental_health_input depth data =
     (case sanitize_body depth data of Inl e \<Rightarrow> data | Inr r \<Rightarrow> r)"


section \<open>Properties of the crisis detector\<close>

lemma kw_loop_eq:
  "kw_loop t w label kws (s, fs) =
     (s + w * int (length (filter (\<lambda>k. py_in k t) kws)),
      fs @ map (\<lambda>k. label @ k) (filter (\<lambda>k. py_in k t) kws))"
  by (induction kws arbitrary: s fs) (auto simp: algebra_simps)

lemma kw_loop_fst_bounds:
  assumes "0 \<le> w"
  shows "s \<le> fst (kw_loop t w label kws (s, fs))"
    and "fst (kw_loop t w label kws (s, fs)) \<le> s + w * int (length kws)"
proof -
  let ?n = "length (filter (\<lambda>k. py_in k t) kws)"
  have "?n \<le> length kws" by simp
  then have "w * int ?n \<le> w * int (length kws)"
    using assms by (intro mult_left_mono) auto
  moreover have "0 \<le> w * int ?n" using assms by simp
  ultimately show "s \<le> fst (kw_loop t w label kws (s, fs))"
    and "fst (kw_loop t w label kws (s, fs)) \<le> s + w * int (length kws)"
    by (simp_all add: kw_loop_eq)
qed

lemma numeric_overlay_bounds:
  "fst st \<le> fst (numeric_overlay responses st)"
  "fst (numeric_overlay responses st) \<le> fst st + 7"
  by (auto simp: numeric_overlay_def Let_def split: option.splits)

lemma crisis_scores_bounds:
  "0 \<le> fst (crisis_scores responses t)"
  "fst (crisis_scores responses t) \<le> 143"
proof -
  obtain s1 f1 where k1: "kw_loop t 10 ''Crisis indicator: '' crisis_keywords (0, []) = (s1, f1)"
    by (cases "kw_loop t 10 ''Crisis indicator: '' crisis_keywords (0, [])")
  obtain s2 f2 where k2: "kw_loop t 5 ''High risk indicator: '' high_risk_mh_keywords (s1, f1) = (s2, f2)"
    by (cases "kw_loop t 5 ''High risk indicator: '' high_risk_mh_keywords (s1, f1)")
  obtain s3 f3 where k3: "kw_loop t 2 ''Moderate risk indicator: '' moderate_risk_mh_keywords (s2, f2) = (s3, f3)"
    by (cases "kw_loop t 2 ''Moderate risk indicator: '' moderate_risk_mh_keywords (s2, f2)")
  have b1: "0 \<le> s1" "s1 \<le> 80"
    using kw_loop_fst_bounds[where w=10 and s=0 and t=t and label="''Crisis indicator: ''" and kws=crisis_keywords and fs="[]"] k1
    by (simp_all add: crisis_keywords_def)
  have b2: "s1 \<le> s2" "s2 \<le> s1 + 40"
    using kw_loop_fst_bounds[where w=5 and s=s1 and t=t and label="''High risk indicator: ''" and kws=high_risk_mh_keywords and fs=f1] k2
    by (simp_all add: high_risk_mh_keywords_def)
  have b3: "s2 \<le> s3" "s3 \<le> s2 + 16"
    using kw_loop_fst_bounds[where w=2 and s=s2 and t=t and label="''Moderate risk indicator: ''" and kws=moderate_risk_mh_keywords and fs=f2] k3
    by (simp_all add: moderate_risk_mh_keywords_def)
  have b4: "s3 \<le> fst (numeric_overlay responses (s3, f3))"
    "fst (numeric_overlay responses (s3, f3)) \<le> s3 + 7"
    using numeric_overlay_bounds[where st="(s3, f3)" and responses=responses] by simp_all
  have e: "crisis_scores responses t = numeric_overlay responses (s3, f3)"
    by (simp add: crisis_scores_def k1 k2 k3)
  show "0 \<le> fst (crisis_scores responses t)" using b1 b2 b3 b4 e by simp
  show "fst (crisis_scores responses t) \<le> 143" using b1 b2 b3 b4 e by simp
qed

lemma crisis_body_score:
  "assess_crisis_body env now u = Inr r \<Longrightarrow> 0 \<le> crisis_risk_score r \<and> crisis_risk_score r \<le> 143"
  by (auto simp: assess_crisis_body_def Let_def crisis_scores_bounds split: sum.splits)

text \<open>
  Claim C2.  Whenever the body of \<open>assess_crisis_risk\<close> raises, the call returns the
  fail-safe result: level \<open>high\<close>, score 999, the single indicator
  \<open>Assessment system error - defaulting to high risk\<close> and both flags true.  The
  function returns a result on every input, so nothing is raised to the caller.  On the
  path without an exception the score is at most 143 (every keyword counts once: 8 times
  10, 8 times 5, 8 times 2, and 7 from the ratings), so it is never the sentinel 999.
\<close>

theorem crisis_failsafe_sentinel:
  "(assess_crisis_body env now u = Inl e \<longrightarrow>
      risk_level (assess_crisis_risk env now u) = ''high'' \<and>
      crisis_risk_score (assess_crisis_risk env now u) = 999 \<and>
      risk_indicators (assess_crisis_risk env now u) =
        [''Assessment system error - defaulting to high risk''] \<and>
      crisis_intervention_needed (assess_crisis_risk env now u) \<and>
      professional_referral_suggested (assess_crisis_risk env now u)) \<and>
   (assess_crisis_body env now u = Inr r \<longrightarrow>
      assess_crisis_risk env now u = r \<and> crisis_risk_score r \<le> 143 \<and>
      crisis_risk_score r \<noteq> 999)"
  using crisis_body_score[of env now u r]
  by (auto simp: assess_crisis_risk_def crisis_failsafe_def)

text \<open>
  The hypothesis holds for a payload that is not a dictionary (\<open>None\<close>.get raises
  \<open>AttributeError\<close>), and the second hypothesis for an empty dictionary.
\<close>

theorem crisis_failsafe_sentinel_witness:
  "\<forall>env now.
     assess_crisis_body env now PNone = Inl AttributeError \<and>
     risk_level (assess_crisis_risk env now PNone) = ''high'' \<and>
     crisis_risk_score (assess_crisis_risk env now PNone) = 999 \<and>
     risk_indicators (assess_crisis_risk env now PNone) =
       [''Assessment system error - defaulting to high risk''] \<and>
     crisis_intervention_needed (assess_crisis_risk env now PNone) \<and>
     professional_referral_suggested (assess_crisis_risk env now PNone) \<and>
     assess_crisis_body env now (PDict []) = Inr (assess_crisis_risk env now (PDict [])) \<and>
     crisis_risk_score (assess_crisis_risk env now (PDict [])) \<noteq> 999"
proof (intro allI)
  fix env :: builtins and now :: string
  have h: "assess_crisis_body env now PNone = Inl AttributeError"
    by (simp add: assess_crisis_body_def crisis_text_inputs_def)
  obtain r where k: "assess_crisis_body env now (PDict []) = Inr r"
    by (simp add: assess_crisis_body_def crisis_text_inputs_def Let_def)
  from crisis_failsafe_sentinel[of env now PNone AttributeError r] h
    crisis_failsafe_sentinel[of env now "PDict []" AttributeError r] k
  show "assess_crisis_body env now PNone = Inl AttributeError \<and>
     risk_level (assess_crisis_risk env now PNone) = ''high'' \<and>
     crisis_risk_score (assess_crisis_risk env now PNone) = 999 \<and>
     risk_indicators (assess_crisis_risk env now PNone) =
       [''Assessment system error - defaulting to high risk''] \<and>
     crisis_intervention_needed (assess_crisis_risk env now PNone) \<and>
     professional_referral_suggested (assess_crisis_risk env now PNone) \<and>
     assess_crisis_body env now (PDict []) = Inr (assess_crisis_risk env now (PDict [])) \<and>
     crisis_risk_score (assess_crisis_risk env now (PDict [])) \<noteq> 999"
    by simp
qed

text \<open>
  Claim C3.  The payload of the claim, evaluated: the only text is
  \<open>suicidal thoughts\<close>, which contains none of the keywords (\<open>suicide\<close> is not a
  substring of \<open>suicidal\<close>), so the score is the 3 + 2 + 2 of the three ratings and
  the level is \<open>high\<close>, not \<open>crisis\<close>.
\<close>

theorem suicidal_thoughts_scored_high:
  "assess_crisis_risk env now
     (PDict [(''responses'', PDict [(''mood_rating'', PInt 1), (''anxiety_level'', PInt 10),
                                   (''stress_level'', PInt 10)]),
             (''symptoms'', PList [PStr ''suicidal thoughts''])])
   = \<lparr>risk_level = ''high'',
      crisis_risk_score = 7,
      risk_indicators = [''Very low mood rating'', ''High anxiety level'', ''High stress level''],
      crisis_intervention_needed = False,
      professional_referral_suggested = True,
      crisis_timestamp = now\<rparr>"
  by code_simp

text \<open>
  Claim C4, as stated, fails on the error path: the handler reports level \<open>high\<close>
  together with \<open>crisis_intervention_needed\<close> true.
\<close>

theorem crisis_flag_error_path_counterexample:
  "\<forall>env now.
     crisis_intervention_needed (assess_crisis_risk env now PNone) \<and>
     risk_level (assess_crisis_risk env now PNone) \<noteq> ''crisis''"
  by (simp add: assess_crisis_risk_def assess_crisis_body_def crisis_text_inputs_def
      crisis_failsafe_def)

text \<open>
  Claim C4, amended.  On every result \<open>professional_referral_suggested\<close> is true
  exactly when the level is \<open>crisis\<close> or \<open>high\<close>.  On a result of the path without
  an exception \<open>crisis_intervention_needed\<close> is true exactly when the level is
  \<open>crisis\<close>; on the error path it is true and the level is \<open>high\<close>.
\<close>

theorem crisis_flags:
  "(professional_referral_suggested (assess_crisis_risk env now u) \<longleftrightarrow>
      risk_level (assess_crisis_risk env now u) = ''crisis'' \<or>
      risk_level (assess_crisis_risk env now u) = ''high'') \<and>
   (assess_crisis_body env now u = Inr r \<longrightarrow>
      (crisis_intervention_needed (assess_crisis_risk env now u) \<longleftrightarrow>
         risk_level (assess_crisis_risk env now u) = ''crisis'')) \<and>
   (assess_crisis_body env now u = Inl e \<longrightarrow>
      crisis_intervention_needed (assess_crisis_risk env now u) \<and>
      risk_level (assess_crisis_risk env now u) = ''high'')"
  by (auto simp: assess_crisis_risk_def assess_crisis_body_def crisis_failsafe_def Let_def
      split: sum.splits)

theorem crisis_flags_witness:
  "\<forall>env now.
     assess_crisis_body env now PNone = Inl AttributeError \<and>
     crisis_intervention_needed (assess_crisis_risk env now PNone) \<and>
     risk_level (assess_crisis_risk env now PNone) = ''high'' \<and>
     professional_referral_suggested (assess_crisis_risk env now PNone) \<and>
     assess_crisis_body env now (PDict []) = Inr (assess_crisis_risk env now (PDict [])) \<and>
     risk_level (assess_crisis_risk env now (PDict [])) = ''low'' \<and>
     \<not> crisis_intervention_needed (assess_crisis_risk env now (PDict [])) \<and>
     \<not> professional_referral_suggested (assess_crisis_risk env now (PDict []))"
proof (intro allI)
  fix env :: builtins and now :: string
  have h: "assess_crisis_body env now PNone = Inl AttributeError"
    by (simp add: assess_crisis_body_def crisis_text_inputs_def)
  have k: "assess_crisis_body env now (PDict []) = Inr (assess_crisis_risk env now (PDict []))"
    by (simp add: assess_crisis_risk_def assess_crisis_body_def crisis_text_inputs_def Let_def)
  have l: "risk_level (assess_crisis_risk env now (PDict [])) = ''low''"
    by code_simp
  from crisis_flags[of env now PNone "assess_crisis_risk env now (PDict [])" AttributeError] h
    crisis_flags[of env now "PDict []" "assess_crisis_risk env now (PDict [])" AttributeError] k l
  show "assess_crisis_body env now PNone = Inl AttributeError \<and>
     crisis_intervention_needed (assess_crisis_risk env now PNone) \<and>
     risk_level (assess_crisis_risk env now PNone) = ''high'' \<and>
     professional_referral_suggested (assess_crisis_risk env now PNone) \<and>
     assess_crisis_body env now (PDict []) = Inr (assess_crisis_risk env now (PDict [])) \<and>
     risk_level (assess_crisis_risk env now (PDict [])) = ''low'' \<and>
     \<not> crisis_intervention_needed (assess_crisis_risk env now (PDict [])) \<and>
     \<not> professional_referral_suggested (assess_crisis_risk env now (PDict []))"
    by simp
qed


section \<open>Properties of the risk assessment service\<close>

text \<open>
  Claim C1, as stated, fails: a fault inside a component scorer is caught by that scorer
  and does not lead to the HIGH/10/urgent result.  With no symptoms and the follow-up
  answer \<open>pain_scale = 'abc'\<close> the follow-up scorer raises \<open>ValueError\<close>, returns
  its fallback component of score 1, and the assessment is LOW with score 1.
\<close>

theorem followup_fault_yields_low_counterexample:
  "\<forall>env now.
     assess_followup_body (PDict [(''pain_scale'', PStr ''abc'')]) = Inl ValueError \<and>
     overall_risk_level
       (assess_comprehensive_risk env now (PList []) PNone PNone
          (PDict [(''pain_scale'', PStr ''abc'')])) = ''LOW'' \<and>
     risk_score
       (assess_comprehensive_risk env now (PList []) PNone PNone
          (PDict [(''pain_scale'', PStr ''abc'')])) = 1"
proof (intro allI conjI)
  fix env :: builtins and now :: string
  show "assess_followup_body (PDict [(''pain_scale'', PStr ''abc'')]) = Inl ValueError"
    by code_simp
  show "overall_risk_level
       (assess_comprehensive_risk env now (PList []) PNone PNone
          (PDict [(''pain_scale'', PStr ''abc'')])) = ''LOW''"
    by code_simp
  show "risk_score
       (assess_comprehensive_risk env now (PList []) PNone PNone
          (PDict [(''pain_scale'', PStr ''abc'')])) = 1"
    by code_simp
qed

text \<open>
  Claim C1, amended.  The call returns a result on every input: no exception leaves the
  body of the aggregator.  An exception inside a component scorer is turned by the
  scorer's own handler into its fallback component (score 5 for symptoms, 3 for vitals, 1
  for context, 1 for follow-up, each with its assessment-error factor); the aggregator
  adds the component scores and takes the level and the urgency of the sum as usual.
  The aggregator's own handler returns HIGH, score 10, urgency urgent, the factor
  \<open>Assessment error - defaulting to high risk for safety\<close> and the error-specific
  recommendation.
\<close>

theorem aggregator_absorbs_scorer_faults:
  "assess_comprehensive_body env now s v c f = Inr (assess_comprehensive_risk env now s v c f) \<and>
   risk_score (assess_comprehensive_risk env now s v c f) =
     score (assess_symptom_risk s)
     + (if py_truthy v then score (assess_vital_signs_risk env v) else 0)
     + (if py_truthy c then score (assess_context_risk c) else 0)
     + (if py_truthy f then score (assess_followup_risk f) else 0) \<and>
   overall_risk_level (assess_comprehensive_risk env now s v c f) =
     fl_overall_risk_level
       (determine_final_risk_level (risk_score (assess_comprehensive_risk env now s v c f))) \<and>
   urgency_level (assess_comprehensive_risk env now s v c f) =
     fl_urgency_level
       (determine_final_risk_level (risk_score (assess_comprehensive_risk env now s v c f))) \<and>
   (assess_symptom_body s = Inl e1 \<longrightarrow>
      score (assess_symptom_risk s) = 5 \<and>
      factors (assess_symptom_risk s) = [''Symptom assessment error'']) \<and>
   (assess_vital_signs_body env v = Inl e2 \<longrightarrow>
      score (assess_vital_signs_risk env v) = 3 \<and>
      factors (assess_vital_signs_risk env v) = [''Vital signs assessment error'']) \<and>
   (assess_context_body c = Inl e3 \<longrightarrow>
      score (assess_context_risk c) = 1 \<and>
      factors (assess_context_risk c) = [''Context assessment error'']) \<and>
   (assess_followup_body f = Inl e4 \<longrightarrow>
      score (assess_followup_risk f) = 1 \<and>
      factors (assess_followup_risk f) = [''Follow-up assessment error'']) \<and>
   overall_risk_level (comprehensive_failsafe e) = ''HIGH'' \<and>
   risk_score (comprehensive_failsafe e) = 10 \<and>
   urgency_level (comprehensive_failsafe e) = ''urgent'' \<and>
   risk_factors (comprehensive_failsafe e) =
     [''Assessment error - defaulting to high risk for safety''] \<and>
   recommendations (comprehensive_failsafe e) =
     [''Seek immediate medical attention due to assessment system error'']"
  by (simp add: assess_comprehensive_risk_def assess_comprehensive_body_def Let_def
      assess_symptom_risk_def assess_vital_signs_risk_def assess_context_risk_def
      assess_followup_risk_def comprehensive_failsafe_def)

text \<open>
  All four scorers fail on the payload below: a symptom that is not a string, vitals
  that are a list, an age that is a string, a pain scale that is no numeral.  The four
  fallback scores add up to 10.
\<close>

theorem aggregator_absorbs_scorer_faults_witness:
  "\<forall>env now.
     assess_symptom_body (PList [PInt 1]) = Inl TypeError \<and>
     assess_vital_signs_body env (PList [PInt 1]) = Inl AttributeError \<and>
     assess_context_body (PDict [(''age'', PStr ''old'')]) = Inl TypeError \<and>
     assess_followup_body (PDict [(''pain_scale'', PStr ''abc'')]) = Inl ValueError \<and>
     score (assess_symptom_risk (PList [PInt 1])) = 5 \<and>
     score (assess_vital_signs_risk env (PList [PInt 1])) = 3 \<and>
     score (assess_context_risk (PDict [(''age'', PStr ''old'')])) = 1 \<and>
     score (assess_followup_risk (PDict [(''pain_scale'', PStr ''abc'')])) = 1 \<and>
     risk_score
       (assess_comprehensive_risk env now (PList [PInt 1]) (PList [PInt 1])
          (PDict [(''age'', PStr ''old'')]) (PDict [(''pain_scale'', PStr ''abc'')])) = 10"
proof (intro allI)
  fix env :: builtins and now :: string
  have h1: "assess_symptom_body (PList [PInt 1]) = Inl TypeError"
    by code_simp
  have h2: "assess_vital_signs_body env (PList [PInt 1]) = Inl AttributeError"
    by (simp add: assess_vital_signs_body_def)
  have h3: "assess_context_body (PDict [(''age'', PStr ''old'')]) = Inl TypeError"
    by code_simp
  have h4: "assess_followup_body (PDict [(''pain_scale'', PStr ''abc'')]) = Inl ValueError"
    by code_simp
  from aggregator_absorbs_scorer_faults
         [of env now "PList [PInt 1]" "PList [PInt 1]" "PDict [(''age'', PStr ''old'')]"
             "PDict [(''pain_scale'', PStr ''abc'')]" TypeError AttributeError TypeError
             ValueError TypeError]
       h1 h2 h3 h4
  show "assess_symptom_body (PList [PInt 1]) = Inl TypeError \<and>
     assess_vital_signs_body env (PList [PInt 1]) = Inl AttributeError \<and>
     assess_context_body (PDict [(''age'', PStr ''old'')]) = Inl TypeError \<and>
     assess_followup_body (PDict [(''pain_scale'', PStr ''abc'')]) = Inl ValueError \<and>
     score (assess_symptom_risk (PList [PInt 1])) = 5 \<and>
     score (assess_vital_signs_risk env (PList [PInt 1])) = 3 \<and>
     score (assess_context_risk (PDict [(''age'', PStr ''old'')])) = 1 \<and>
     score (assess_followup_risk (PDict [(''pain_scale'', PStr ''abc'')])) = 1 \<and>
     risk_score
       (assess_comprehensive_risk env now (PList [PInt 1]) (PList [PInt 1])
          (PDict [(''age'', PStr ''old'')]) (PDict [(''pain_scale'', PStr ''abc'')])) = 10"
    by simp
qed

text \<open>
  Claim C9.  The clock is the only input of the aggregator besides its arguments, and it
  reaches the timestamp only: for two calls with the same arguments at any two times the
  score, the level and the factors are the same.
\<close>

theorem aggregator_clock_independent:
  "risk_score (assess_comprehensive_risk env now1 s v c f) =
     risk_score (assess_comprehensive_risk env now2 s v c f) \<and>
   overall_risk_level (assess_comprehensive_risk env now1 s v c f) =
     overall_risk_level (assess_comprehensive_risk env now2 s v c f) \<and>
   risk_factors (assess_comprehensive_risk env now1 s v c f) =
     risk_factors (assess_comprehensive_risk env now2 s v c f)"
  by (simp add: assess_comprehensive_risk_def assess_comprehensive_body_def Let_def)

text \<open>
  Claim C8.  The context \<open>{'age': 0}\<close>, evaluated: the test \<open>if age:\<close> is false for
  0, so the age block is skipped, nothing is added and the category is \<open>unknown\<close>,
  although 0 is at most 2.
\<close>

theorem age_zero_not_scored:
  "assess_context_risk (PDict [(''age'', PInt 0)]) =
     \<lparr>score = 0, factors = [], age_category = ''unknown''\<rparr>"
  by code_simp

text \<open>
  Claim C5.  The bands of \<open>oxygen_saturation\<close> are disjoint, not nested: 98 lies in
  the normal band (95 to 100) and outside the critical band (0 to 89), which the scorer
  tests first.  The vitals \<open>{'oxygen_saturation': 98}\<close>, evaluated, score 6 with a
  factor \<open>Critical oxygen_saturation\<close>.
\<close>

theorem normal_oxygen_saturation_scored_critical:
  "map_of vital_ranges ''oxygen_saturation'' =
     Some \<lparr>normal = (95, 100), concerning = (90, 94), critical = (0, 89)\<rparr> \<and>
   in_band (95, 100) (Fin 98) \<and>
   \<not> in_band (0, 89) (Fin 98) \<and>
   assess_vital_signs_risk env (PDict [(''oxygen_saturation'', PInt 98)]) =
     \<lparr>score = 6,
      factors = [''Critical oxygen_saturation: '' @ float_repr env (Fin 98)],
      abnormal_vitals = [''oxygen_saturation''],
      vitals_provided = Some [''oxygen_saturation'']\<rparr>"
  by code_simp


subsection \<open>Symptom scorer\<close>

lemma two_hits:
  assumes "a \<in> set kws" "b \<in> set kws" "a \<noteq> b" "P a" "P b"
  shows "2 \<le> length (filter P kws)"
proof -
  have "{a, b} \<subseteq> set (filter P kws)" using assms by auto
  then have "card {a, b} \<le> card (set (filter P kws))"
    by (intro card_mono) auto
  also have "\<dots> \<le> length (filter P kws)" by (rule card_length)
  finally show ?thesis using assms(3) by simp
qed

lemma py_join_len: "py_join sep v = Inr j \<Longrightarrow> \<exists>n. py_len v = Inr n"
  by (cases v) (auto simp: py_join_def split: sum.splits)

lemma symptom_scores_eq:
  "symptom_scores t =
     (8 * int (length (filter (\<lambda>k. py_in k t) emergency_keywords))
      + 5 * int (length (filter (\<lambda>k. py_in k t) high_risk_keywords))
      + 2 * int (length (filter (\<lambda>k. py_in k t) moderate_risk_keywords))
      + (if py_in ''fever'' t \<and> py_in ''headache'' t then 2 else 0)
      + (if py_in ''chest pain'' t \<and> py_in ''shortness of breath'' t then 6 else 0),
      map (\<lambda>k. ''Emergency symptom detected: '' @ k) (filter (\<lambda>k. py_in k t) emergency_keywords)
      @ map (\<lambda>k. ''High-risk symptom: '' @ k) (filter (\<lambda>k. py_in k t) high_risk_keywords)
      @ map (\<lambda>k. ''Moderate-risk symptom: '' @ k) (filter (\<lambda>k. py_in k t) moderate_risk_keywords)
      @ (if py_in ''fever'' t \<and> py_in ''headache'' t
         then [''Fever + headache combination increases risk''] else [])
      @ (if py_in ''chest pain'' t \<and> py_in ''shortness of breath'' t
         then [''Chest pain + breathing difficulty - high risk combination''] else []))"
  by (simp add: symptom_scores_def Let_def kw_loop_eq)

lemma assess_symptom_risk_joined:
  assumes "py_join '' '' symptoms = Inr joined"
  shows "score (assess_symptom_risk symptoms) = min (fst (symptom_scores (lower joined))) 10"
    and "factors (assess_symptom_risk symptoms) = snd (symptom_scores (lower joined))"
proof -
  obtain n where "py_len symptoms = Inr n" using py_join_len[OF assms] by blast
  then show "score (assess_symptom_risk symptoms) = min (fst (symptom_scores (lower joined))) 10"
    and "factors (assess_symptom_risk symptoms) = snd (symptom_scores (lower joined))"
    using assms by (simp_all add: assess_symptom_risk_def assess_symptom_body_def Let_def)
qed

lemma emergency_two_hits:
  assumes "py_in ''chest pain'' t"
    and "py_in ''difficulty breathing'' t \<or> py_in ''shortness of breath'' t"
  shows "2 \<le> length (filter (\<lambda>k. py_in k t) emergency_keywords)"
proof -
  from assms(2) show ?thesis
  proof
    assume "py_in ''difficulty breathing'' t"
    then show ?thesis
      using assms(1)
      by (intro two_hits[where a="''chest pain''" and b="''difficulty breathing''"])
         (simp_all add: emergency_keywords_def)
  next
    assume "py_in ''shortness of breath'' t"
    then show ?thesis
      using assms(1)
      by (intro two_hits[where a="''chest pain''" and b="''shortness of breath''"])
         (simp_all add: emergency_keywords_def)
  qed
qed

text \<open>
  Claim C6, as stated, fails for the pair \<open>chest pain\<close> and \<open>difficulty breathing\<close>:
  the score is capped at 10 and both emergency factors are there, but the combination
  factor is not, since the scorer tests \<open>shortness of breath\<close> only.
\<close>

theorem combination_factor_missing_counterexample:
  "py_join '' '' (PList [PStr ''chest pain'', PStr ''difficulty breathing''])
     = Inr ''chest pain difficulty breathing'' \<and>
   py_in ''chest pain'' (lower ''chest pain difficulty breathing'') \<and>
   py_in ''difficulty breathing'' (lower ''chest pain difficulty breathing'') \<and>
   factors (assess_symptom_risk (PList [PStr ''chest pain'', PStr ''difficulty breathing''])) =
     [''Emergency symptom detected: chest pain'',
      ''Emergency symptom detected: difficulty breathing'']"
  by code_simp

text \<open>
  Claim C6, amended.  For every symptom list whose joined lowercase text contains
  \<open>chest pain\<close> and one of \<open>difficulty breathing\<close> and \<open>shortness of breath\<close>,
  the score is 10 and the factors contain the emergency factor of \<open>chest pain\<close> and of
  each of the two breathing keywords that occurs; the combination factor is among the
  factors exactly when the text contains \<open>shortness of breath\<close>.
\<close>

theorem chest_pain_breathing_symptom_score:
  assumes j: "py_join '' '' symptoms = Inr joined"
    and cp: "py_in ''chest pain'' (lower joined)"
    and br: "py_in ''difficulty breathing'' (lower joined) \<or>
             py_in ''shortness of breath'' (lower joined)"
  shows "score (assess_symptom_risk symptoms) = 10 \<and>
     ''Emergency symptom detected: chest pain'' \<in> set (factors (assess_symptom_risk symptoms)) \<and>
     (py_in ''difficulty breathing'' (lower joined) \<longrightarrow>
        ''Emergency symptom detected: difficulty breathing''
          \<in> set (factors (assess_symptom_risk symptoms))) \<and>
     (py_in ''shortness of breath'' (lower joined) \<longrightarrow>
        ''Emergency symptom detected: shortness of breath''
          \<in> set (factors (assess_symptom_risk symptoms))) \<and>
     (''Chest pain + breathing difficulty - high risk combination''
          \<in> set (factors (assess_symptom_risk symptoms))
        \<longleftrightarrow> py_in ''shortness of breath'' (lower joined))"
proof -
  let ?t = "lower joined"
  have two: "2 \<le> length (filter (\<lambda>k. py_in k ?t) emergency_keywords)"
    using emergency_two_hits[OF cp br] .
  have "16 \<le> fst (symptom_scores ?t)"
    using two by (simp add: symptom_scores_eq)
  then have sc: "score (assess_symptom_risk symptoms) = 10"
    by (simp add: assess_symptom_risk_joined(1)[OF j])
  have f: "factors (assess_symptom_risk symptoms) = snd (symptom_scores ?t)"
    by (rule assess_symptom_risk_joined(2)[OF j])
  have e1: "''Emergency symptom detected: chest pain'' \<in> set (snd (symptom_scores ?t))"
    using cp by (simp add: symptom_scores_eq emergency_keywords_def)
  have e2: "py_in ''difficulty breathing'' ?t \<longrightarrow>
      ''Emergency symptom detected: difficulty breathing'' \<in> set (snd (symptom_scores ?t))"
    by (simp add: symptom_scores_eq emergency_keywords_def)
  have e3: "py_in ''shortness of breath'' ?t \<longrightarrow>
      ''Emergency symptom detected: shortness of breath'' \<in> set (snd (symptom_scores ?t))"
    by (simp add: symptom_scores_eq emergency_keywords_def)
  have c: "''Chest pain + breathing difficulty - high risk combination''
        \<in> set (snd (symptom_scores ?t)) \<longleftrightarrow> py_in ''shortness of breath'' ?t"
    using cp by (auto simp: symptom_scores_eq)
  show ?thesis using sc e1 e2 e3 c by (simp add: f)
qed

theorem chest_pain_breathing_symptom_score_witness:
  "py_join '' '' (PList [PStr ''Chest Pain'', PStr ''Shortness of breath'']) =
     Inr ''Chest Pain Shortness of breath'' \<and>
   py_in ''chest pain'' (lower ''Chest Pain Shortness of breath'') \<and>
   py_in ''shortness of breath'' (lower ''Chest Pain Shortness of breath'') \<and>
   score (assess_symptom_risk (PList [PStr ''Chest Pain'', PStr ''Shortness of breath''])) = 10 \<and>
   ''Emergency symptom detected: chest pain''
     \<in> set (factors (assess_symptom_risk (PList [PStr ''Chest Pain'', PStr ''Shortness of breath'']))) \<and>
   ''Emergency symptom detected: shortness of breath''
     \<in> set (factors (assess_symptom_risk (PList [PStr ''Chest Pain'', PStr ''Shortness of breath'']))) \<and>
   ''Chest pain + breathing difficulty - high risk combination''
     \<in> set (factors (assess_symptom_risk (PList [PStr ''Chest Pain'', PStr ''Shortness of breath''])))"
proof -
  have h1: "py_join '' '' (PList [PStr ''Chest Pain'', PStr ''Shortness of breath'']) =
     Inr ''Chest Pain Shortness of breath''"
    by (simp add: py_join_def)
  have h2: "py_in ''chest pain'' (lower ''Chest Pain Shortness of breath'')"
    by code_simp
  have h3: "py_in ''shortness of breath'' (lower ''Chest Pain Shortness of breath'')"
    by code_simp
  from chest_pain_breathing_symptom_score[OF h1 h2 disjI2[OF h3]] h1 h2 h3
  show ?thesis by simp
qed


subsection \<open>Values that do not parse\<close>





lemma vital_loop_skip:
  "v = PNone \<or> v = PStr [] \<Longrightarrow>
   vital_loop env ((name, v) # rest) (sc, fs, ab) = vital_loop env rest (sc, fs, ab)"
  by simp











section \<open>Properties of the input sanitizer\<close>

text \<open>
  Claim C10.  \<open>sanitize_mental_health_input\<close> returns a value on every input, so
  nothing is raised to the caller.  When the body raises, the value is the argument
  itself, with no pattern replaced; otherwise it is the cleaned copy.
\<close>

theorem sanitize_error_returns_input:
  "(sanitize_body depth data = Inl e \<longrightarrow> sanitize_mental_health_input depth data = data) \<and>
   (sanitize_body depth data = Inr r \<longrightarrow> sanitize_mental_health_input depth data = r)"
  by (simp add: sanitize_mental_health_input_def)

text \<open>
  The body raises on an argument without \<open>copy\<close> (a string), and on a dictionary
  nested deeper than the recursion allows: with three nested calls left the dictionary
  below comes back unchanged, and the text that the crisis detector collects from it
  still holds the script element.  With four calls left the same dictionary is cleaned.
\<close>

theorem sanitize_error_returns_input_witness:
  "\<forall>env.
   sanitize_body 3 (PStr ''<script>alert(1)</script>'') = Inl AttributeError \<and>
   sanitize_mental_health_input 3 (PStr ''<script>alert(1)</script>'') =
     PStr ''<script>alert(1)</script>'' \<and>
   sanitize_body 3
     (PDict [(''symptoms'', PList [PStr ''<script>alert(1)</script> hopeless'']),
             (''responses'', PDict [(''notes'', PDict [(''x'', PDict [])])])]) =
     Inl RecursionError \<and>
   sanitize_mental_health_input 3
     (PDict [(''symptoms'', PList [PStr ''<script>alert(1)</script> hopeless'']),
             (''responses'', PDict [(''notes'', PDict [(''x'', PDict [])])])]) =
     PDict [(''symptoms'', PList [PStr ''<script>alert(1)</script> hopeless'']),
            (''responses'', PDict [(''notes'', PDict [(''x'', PDict [])])])] \<and>
   crisis_text_inputs env
     (sanitize_mental_health_input 3
        (PDict [(''symptoms'', PList [PStr ''<script>alert(1)</script> hopeless'']),
                (''responses'', PDict [(''notes'', PDict [(''x'', PDict [])])])])) =
     Inr [''<script>alert(1)</script> hopeless''] \<and>
   sanitize_body 4
     (PDict [(''symptoms'', PList [PStr ''<script>alert(1)</script> hopeless'']),
             (''responses'', PDict [(''notes'', PDict [(''x'', PDict [])])])]) =
     Inr (PDict [(''symptoms'', PList [PStr ''[REMOVED] hopeless'']),
                 (''responses'', PDict [(''notes'', PDict [(''x'', PDict [])])])]) \<and>
   sanitize_mental_health_input 4
     (PDict [(''symptoms'', PList [PStr ''<script>alert(1)</script> hopeless'']),
             (''responses'', PDict [(''notes'', PDict [(''x'', PDict [])])])]) =
     PDict [(''symptoms'', PList [PStr ''[REMOVED] hopeless'']),
            (''responses'', PDict [(''notes'', PDict [(''x'', PDict [])])])]"
proof (intro allI)
  fix env :: builtins
  let ?d = "PDict [(''symptoms'', PList [PStr ''<script>alert(1)</script> hopeless'']),
                   (''responses'', PDict [(''notes'', PDict [(''x'', PDict [])])])]"
  have h1: "sanitize_body 3 (PStr ''<script>alert(1)</script>'') = Inl AttributeError"
    by (simp add: sanitize_body_def)
  have h2: "sanitize_body 3 ?d = Inl RecursionError"
    by code_simp
  have h3: "sanitize_body 4 ?d =
     Inr (PDict [(''symptoms'', PList [PStr ''[REMOVED] hopeless'']),
                 (''responses'', PDict [(''notes'', PDict [(''x'', PDict [])])])])"
    by code_simp
  have t: "crisis_text_inputs env ?d = Inr [''<script>alert(1)</script> hopeless'']"
    by code_simp
  from sanitize_error_returns_input[of 3 "PStr ''<script>alert(1)</script>''" AttributeError]
       sanitize_error_returns_input[of 3 ?d RecursionError]
       sanitize_error_returns_input
         [of 4 ?d RecursionError
             "PDict [(''symptoms'', PList [PStr ''[REMOVED] hopeless'']),
                     (''responses'', PDict [(''notes'', PDict [(''x'', PDict [])])])]"]
       h1 h2 h3 t
  show "sanitize_body 3 (PStr ''<script>alert(1)</script>'') = Inl AttributeError \<and>
   sanitize_mental_health_input 3 (PStr ''<script>alert(1)</script>'') =
     PStr ''<script>alert(1)</script>'' \<and>
   sanitize_body 3 ?d = Inl RecursionError \<and>
   sanitize_mental_health_input 3 ?d = ?d \<and>
   crisis_text_inputs env (sanitize_mental_health_input 3 ?d) =
     Inr [''<script>alert(1)</script> hopeless''] \<and>
   sanitize_body 4 ?d =
     Inr (PDict [(''symptoms'', PList [PStr ''[REMOVED] hopeless'']),
                 (''responses'', PDict [(''notes'', PDict [(''x'', PDict [])])])]) \<and>
   sanitize_mental_health_input 4 ?d =
     PDict [(''symptoms'', PList [PStr ''[REMOVED] hopeless'']),
            (''responses'', PDict [(''notes'', PDict [(''x'', PDict [])])])]"
    by simp
qed

end
